theory Spec2Isabelle
  imports Complex_Main
begin

section \<open>The chart compiler of useAnalysisChart.ts\<close>

text \<open>
  The embedded file is \<^verbatim>\<open>src/frontend/src/analysis/useAnalysisChart.ts\<close>. Its four
  routines \<^verbatim>\<open>fetchAxisChartData\<close>, \<^verbatim>\<open>fetchMetricChartData\<close>, \<^verbatim>\<open>fetchDonutChartData\<close> and
  \<^verbatim>\<open>fetchTableChartData\<close> validate a chart configuration, resolve its column names against
  the data model, rebuild the chart's query through \<^verbatim>\<open>resetQuery\<close> and one of the
  \<^verbatim>\<open>prepare...Query\<close> routines, and call \<^verbatim>\<open>execute\<close>. \<^verbatim>\<open>refreshChart\<close> tests \<^verbatim>\<open>chart.type\<close> and
  hands \<^verbatim>\<open>chart.config\<close> to the routine of that type; it does nothing else, so the compile
  of a chart of a given type is a run of the routine of that type, and the properties
  below are stated on the four routines.
\<close>

subsection \<open>Columns and the data model\<close>

text \<open>
  Modelled from the spec: the types \<^verbatim>\<open>Dimension\<close> and \<^verbatim>\<open>Measure\<close> are declared outside the
  embedded file. The spec gives a dimension a column name and a display label, and a
  measure a column name and an aggregation kind. The code reads one attribute only,
  \<^verbatim>\<open>value.column_name\<close> of a measure.
\<close>

record Dimension =
  dimension_name :: string
  label :: string

record Measure =
  column_name :: string
  aggregation :: string

text \<open>
  Modelled from the spec: \<^verbatim>\<open>count()\<close> of \<^verbatim>\<open>query_utils\<close>, which is not among the sources, is
  the "single default Measure representing row count".
\<close>

definition count :: Measure where
  "count = \<lparr>column_name = ''count'', aggregation = ''count''\<rparr>"

text \<open>
  The data model is a collaborator. \<^verbatim>\<open>model.getDimension\<close> and \<^verbatim>\<open>model.getMeasure\<close> are taken
  as they come (any lookup from names to columns), and \<^verbatim>\<open>model.queries[0]\<close> is the upstream
  query with its data source and its list of operations. The upstream operations are
  never inspected by the compiler, so their type is a parameter.
\<close>

record 'o ModelQuery =
  dataSource :: string
  operations :: "'o list"

record 'o DataModel =
  getDimension :: "string \<Rightarrow> Dimension option"
  getMeasure :: "string \<Rightarrow> Measure option"
  queries0 :: "'o ModelQuery"

text \<open>
  Modelled from the spec: the code also calls the lookups with a field that may be
  \<^verbatim>\<open>undefined\<close> (\<^verbatim>\<open>config.split_by\<close>, \<^verbatim>\<open>config.metric_column\<close>, \<^verbatim>\<open>config.date_column\<close>,
  \<^verbatim>\<open>config.target_column\<close>). The resolver "returns absence rather than failing when not
  found", and absence is \<^verbatim>\<open>undefined\<close> (the code tests \<^verbatim>\<open>typeof target === 'object'\<close>, which
  a resolved measure satisfies and \<^verbatim>\<open>undefined\<close> does not).
\<close>

definition lookupDimension :: "'o DataModel \<Rightarrow> string option \<Rightarrow> Dimension option" where
  "lookupDimension model name = (case name of None \<Rightarrow> None | Some n \<Rightarrow> getDimension model n)"

definition lookupMeasure :: "'o DataModel \<Rightarrow> string option \<Rightarrow> Measure option" where
  "lookupMeasure model name = (case name of None \<Rightarrow> None | Some n \<Rightarrow> getMeasure model n)"

text \<open>\<^verbatim>\<open>.filter(Boolean)\<close> on a list of lookup results keeps the resolved entries, in order.\<close>

fun filterBoolean :: "'a option list \<Rightarrow> 'a list" where
  "filterBoolean [] = []"
| "filterBoolean (None # xs) = filterBoolean xs"
| "filterBoolean (Some x # xs) = x # filterBoolean xs"

subsection \<open>JavaScript values of the configuration\<close>

text \<open>
  A JavaScript number is represented by its mathematical value: every finite double is a
  rational, \<^verbatim>\<open>-0\<close> is identified with \<^verbatim>\<open>0\<close> (both are falsy and neither is \<^verbatim>\<open>> 0\<close>), and
  \<^verbatim>\<open>NaN\<close> and the two infinities are values of their own.
\<close>

datatype JSNumber = NaN | Finite rat | PosInfinity | NegInfinity

text \<open>\<^verbatim>\<open>target > 0\<close> on a number.\<close>

fun gt_zero :: "JSNumber \<Rightarrow> bool" where
  "gt_zero NaN = False"
| "gt_zero (Finite r) = (0 < r)"
| "gt_zero PosInfinity = True"
| "gt_zero NegInfinity = False"

text \<open>
  \<^verbatim>\<open>config.target_value\<close> is read through \<^verbatim>\<open>Number(...)\<close>, so it is a number or the text of
  one (the spec's example writes \<^verbatim>\<open>target_value: "100"\<close>).
\<close>

datatype JSValue = JSNum JSNumber | JSStr string

text \<open>Truthiness, as \<^verbatim>\<open>if (x)\<close>, \<^verbatim>\<open>!x\<close>, \<^verbatim>\<open>x && y\<close> and \<^verbatim>\<open>x ? a : b\<close> test it.\<close>

fun truthy_number :: "JSNumber \<Rightarrow> bool" where
  "truthy_number NaN = False"
| "truthy_number (Finite r) = (r \<noteq> 0)"
| "truthy_number PosInfinity = True"
| "truthy_number NegInfinity = True"

fun truthy_string :: "string option \<Rightarrow> bool" where
  "truthy_string None = False"
| "truthy_string (Some s) = (s \<noteq> [])"

fun truthy_value :: "JSValue option \<Rightarrow> bool" where
  "truthy_value None = False"
| "truthy_value (Some (JSNum n)) = truthy_number n"
| "truthy_value (Some (JSStr s)) = (s \<noteq> [])"

text \<open>
  \<^verbatim>\<open>Number(v)\<close>: the identity on a number. On a string it is the language's own
  conversion (trimming, the numeric grammar, rounding to a double), which is taken as a
  parameter \<open>parse\<close>.
\<close>

fun Number :: "(string \<Rightarrow> JSNumber) \<Rightarrow> JSValue \<Rightarrow> JSNumber" where
  "Number parse (JSNum n) = n"
| "Number parse (JSStr s) = parse s"

subsection \<open>Configurations\<close>

text \<open>
  The configuration types are declared in \<^verbatim>\<open>chart_utils\<close>, outside the embedded file. A
  field is optional here where the code guards its absence (\<^verbatim>\<open>!config.x_axis\<close>,
  \<^verbatim>\<open>config.y_axis?.map\<close>, the truthiness tests of the Metric fields) and \<open>None\<close> is
  \<^verbatim>\<open>undefined\<close>. The chart starts with the configuration \<^verbatim>\<open>{}\<close>, so the three lists of a Table
  configuration may be absent too; the code reads them unguarded (\<^verbatim>\<open>config.rows.length\<close>,
  \<^verbatim>\<open>config.columns.map\<close>, \<^verbatim>\<open>config.values.map\<close>), and reading a property of \<^verbatim>\<open>undefined\<close>
  throws a TypeError.
\<close>

record AxisChartConfig =
  x_axis :: "string option"
  split_by :: "string option"
  y_axis :: "string list option"

record MetricChartConfig =
  metric_column :: "string option"
  target_value :: "JSValue option"
  target_column :: "string option"
  date_column :: "string option"

record DountChartConfig =
  label_column :: "string option"
  value_column :: "string option"

record TableChartConfig =
  rows :: "string list option"
  columns :: "string list option"
  values_list :: "string list option"

subsection \<open>The chart and its query\<close>

text \<open>
  \<^verbatim>\<open>useQuery\<close> is not among the sources. The chart's query object is represented by what the
  compiler does to it: the value it assigns to \<^verbatim>\<open>autoExecute\<close> and the sequence of method
  calls it makes, oldest first. The arguments of \<^verbatim>\<open>addSummarize\<close> are (measures,
  dimensions), those of \<^verbatim>\<open>addPivotWider\<close> are (rows, columns, values), those of
  \<^verbatim>\<open>addOrderBy\<close> are (column, direction) and those of \<^verbatim>\<open>addMutate\<close> are (new\_name,
  data\_type, mutation). The filters are never inspected, so their type is a parameter.
  Of the chart, the routines act on \<^verbatim>\<open>chart.query\<close> and read \<^verbatim>\<open>chart.filters\<close>; the
  configuration is handed to them as an argument.
\<close>

datatype ColumnRef = Column string

text \<open>
  The mutation \<^verbatim>\<open>expression(`literal(${target})`)\<close> is kept as the number that the template
  interpolates.
\<close>

datatype Expression = Literal JSNumber

datatype ('f, 'o) QueryCall =
    SetDataSource string
  | SetOperations "'o list"
  | AddFilter "'f list"
  | AddSummarize "Measure list" "Dimension list"
  | AddPivotWider "Dimension list" "Dimension list" "Measure list"
  | AddOrderBy ColumnRef string
  | AddMutate string string Expression
  | Execute

record ('f, 'o) Query =
  autoExecute :: bool
  calls :: "('f, 'o) QueryCall list"

record ('f, 'o) Chart =
  query :: "('f, 'o) Query"
  filters :: "'f list"

definition query_call :: "('f, 'o) QueryCall \<Rightarrow> ('f, 'o) Chart \<Rightarrow> ('f, 'o) Chart" where
  "query_call c chart = chart\<lparr>query := (query chart)\<lparr>calls := calls (query chart) @ [c]\<rparr>\<rparr>"

subsection \<open>Errors\<close>

text \<open>
  The code throws \<^verbatim>\<open>new Error(message)\<close>. The constructor records the kind that the spec
  gives the error ("is required": MissingField; "cannot be ...": ConflictingFields;
  "not found": UnknownColumn) and carries the message of the code. \<open>TypeError\<close> is the
  error that the language itself throws when the code reads \<^verbatim>\<open>.length\<close> or \<^verbatim>\<open>.map\<close> of an
  absent list; its message is the engine's and is not modelled.
\<close>

datatype ThrownError =
  MissingField string | ConflictingFields string | UnknownColumn string | TypeError

text \<open>
  A routine either throws, leaving the chart as it is at that moment, or returns.
\<close>

datatype Outcome = Thrown ThrownError | Returned

subsection \<open>resetQuery and the builders\<close>

definition resetQuery :: "'o DataModel \<Rightarrow> ('f, 'o) Chart \<Rightarrow> ('f, 'o) Chart" where
  "resetQuery model chart =
     (let modelQuery = queries0 model;
          c1 = chart\<lparr>query := (query chart)\<lparr>autoExecute := False\<rparr>\<rparr>;
          c2 = query_call (SetDataSource (dataSource modelQuery)) c1;
          c3 = query_call (SetOperations (operations modelQuery)) c2
      in if filters c3 \<noteq> [] then query_call (AddFilter (filters c3)) c3 else c3)"

text \<open>The first statement of \<^verbatim>\<open>prepareAxisChartQuery\<close>: \<^verbatim>\<open>values?.length ? values : [count()]\<close>.\<close>

definition values_or_count :: "Measure list option \<Rightarrow> Measure list" where
  "values_or_count vals = (case vals of None \<Rightarrow> [count] | Some l \<Rightarrow> if l \<noteq> [] then l else [count])"

definition prepareAxisChartQuery ::
  "'o DataModel \<Rightarrow> Dimension \<Rightarrow> Dimension option \<Rightarrow> Measure list option \<Rightarrow>
   ('f, 'o) Chart \<Rightarrow> ('f, 'o) Chart" where
  "prepareAxisChartQuery model row column vals chart =
     (let vs = values_or_count vals;
          c1 = resetQuery model chart
      in case column of
           Some col \<Rightarrow> query_call (AddPivotWider [row] [col] vs) c1
         | None \<Rightarrow> query_call (AddSummarize vs [row]) c1)"

text \<open>
  The target handed to \<^verbatim>\<open>prepareMetricQuery\<close> is a number, a measure or \<^verbatim>\<open>undefined\<close>.
  \<open>positive_number\<close> is the test \<^verbatim>\<open>typeof target === 'number' && target > 0\<close> and
  \<open>object_target\<close> is the test \<^verbatim>\<open>typeof target === 'object'\<close>; each returns what the branch
  then reads.
\<close>

datatype Target = TargetNumber JSNumber | TargetMeasure Measure

fun positive_number :: "Target option \<Rightarrow> JSNumber option" where
  "positive_number (Some (TargetNumber n)) = (if gt_zero n then Some n else None)"
| "positive_number (Some (TargetMeasure t)) = None"
| "positive_number None = None"

fun object_target :: "Target option \<Rightarrow> Measure option" where
  "object_target (Some (TargetMeasure t)) = Some t"
| "object_target (Some (TargetNumber n)) = None"
| "object_target None = None"

definition prepareMetricQuery ::
  "'o DataModel \<Rightarrow> Measure \<Rightarrow> Target option \<Rightarrow> Dimension option \<Rightarrow>
   ('f, 'o) Chart \<Rightarrow> ('f, 'o) Chart" where
  "prepareMetricQuery model metric target date chart =
     (let c1 = resetQuery model chart
      in case positive_number target of
           Some n \<Rightarrow>
             query_call (AddMutate ''target'' ''Decimal'' (Literal n))
               (query_call (AddSummarize [metric] []) c1)
         | None \<Rightarrow>
             (case object_target target of
                Some t \<Rightarrow> query_call (AddSummarize [metric, t] []) c1
              | None \<Rightarrow>
                  (case date of
                     Some d \<Rightarrow> query_call (AddSummarize [metric] [d]) c1
                   | None \<Rightarrow> query_call (AddSummarize [metric] []) c1)))"

definition prepareDonutQuery ::
  "'o DataModel \<Rightarrow> Dimension \<Rightarrow> Measure \<Rightarrow> ('f, 'o) Chart \<Rightarrow> ('f, 'o) Chart" where
  "prepareDonutQuery model lbl val chart =
     (let c1 = resetQuery model chart;
          c2 = query_call (AddSummarize [val] [lbl]) c1
      in query_call (AddOrderBy (Column (column_name val)) ''desc'') c2)"

definition prepareTableQuery ::
  "'o DataModel \<Rightarrow> Dimension list \<Rightarrow> Dimension list \<Rightarrow> Measure list \<Rightarrow>
   ('f, 'o) Chart \<Rightarrow> ('f, 'o) Chart" where
  "prepareTableQuery model rs cs vs chart =
     (let c1 = resetQuery model chart;
          c2 = (if cs = [] then query_call (AddSummarize vs rs) c1 else c1)
      in if cs \<noteq> [] then query_call (AddPivotWider rs cs vs) c2 else c2)"

subsection \<open>The four compile routines\<close>

definition fetchAxisChartData ::
  "'o DataModel \<Rightarrow> AxisChartConfig \<Rightarrow> ('f, 'o) Chart \<Rightarrow> Outcome \<times> ('f, 'o) Chart" where
  "fetchAxisChartData model config chart =
     (if \<not> truthy_string (x_axis config) then
        (Thrown (MissingField ''X-axis is required''), chart)
      else if x_axis config = split_by config then
        (Thrown (ConflictingFields ''X-axis and split-by cannot be the same''), chart)
      else case lookupDimension model (x_axis config) of
        None \<Rightarrow> (Thrown (UnknownColumn ''X-axis column not found''), chart)
      | Some row \<Rightarrow>
          (let column = lookupDimension model (split_by config);
               vals = map_option (\<lambda>ys. filterBoolean (map (getMeasure model) ys)) (y_axis config)
           in (Returned, query_call Execute (prepareAxisChartQuery model row column vals chart))))"

definition fetchMetricChartData ::
  "(string \<Rightarrow> JSNumber) \<Rightarrow> 'o DataModel \<Rightarrow> MetricChartConfig \<Rightarrow> ('f, 'o) Chart \<Rightarrow>
   Outcome \<times> ('f, 'o) Chart" where
  "fetchMetricChartData parse model config chart =
     (if truthy_value (target_value config) \<and> truthy_string (target_column config) then
        (Thrown (ConflictingFields ''Target value and target column cannot be used together''), chart)
      else if metric_column config = target_column config then
        (Thrown (ConflictingFields ''Metric and target cannot be the same''), chart)
      else if truthy_string (target_column config) \<and> truthy_string (date_column config) then
        (Thrown (ConflictingFields ''Target and date cannot be used together''), chart)
      else case lookupMeasure model (metric_column config) of
        None \<Rightarrow> (Thrown (UnknownColumn ''Metric column not found''), chart)
      | Some metric \<Rightarrow>
          (let date = lookupDimension model (date_column config);
               target =
                 (if truthy_value (target_value config)
                  then map_option (\<lambda>v. TargetNumber (Number parse v)) (target_value config)
                  else map_option TargetMeasure (lookupMeasure model (target_column config)))
           in (Returned, query_call Execute (prepareMetricQuery model metric target date chart))))"

definition fetchDonutChartData ::
  "'o DataModel \<Rightarrow> DountChartConfig \<Rightarrow> ('f, 'o) Chart \<Rightarrow> Outcome \<times> ('f, 'o) Chart" where
  "fetchDonutChartData model config chart =
     (if \<not> truthy_string (label_column config) then
        (Thrown (MissingField ''Label is required''), chart)
      else if \<not> truthy_string (value_column config) then
        (Thrown (MissingField ''Value is required''), chart)
      else case lookupDimension model (label_column config) of
        None \<Rightarrow> (Thrown (UnknownColumn ''Label column not found''), chart)
      | Some lbl \<Rightarrow>
          (case lookupMeasure model (value_column config) of
             None \<Rightarrow> (Thrown (UnknownColumn ''Value column not found''), chart)
           | Some val \<Rightarrow> (Returned, query_call Execute (prepareDonutQuery model lbl val chart))))"

definition fetchTableChartData ::
  "'o DataModel \<Rightarrow> TableChartConfig \<Rightarrow> ('f, 'o) Chart \<Rightarrow> Outcome \<times> ('f, 'o) Chart" where
  "fetchTableChartData model config chart =
     (case rows config of
        None \<Rightarrow> (Thrown TypeError, chart)
      | Some config_rows \<Rightarrow>
          if config_rows = [] then (Thrown (MissingField ''Rows are required''), chart)
          else
            (let rs = filterBoolean (map (getDimension model) config_rows)
             in case columns config of
                  None \<Rightarrow> (Thrown TypeError, chart)
                | Some config_columns \<Rightarrow>
                    (let cs = filterBoolean (map (getDimension model) config_columns)
                     in case values_list config of
                          None \<Rightarrow> (Thrown TypeError, chart)
                        | Some config_values \<Rightarrow>
                            (let vs = filterBoolean (map (getMeasure model) config_values)
                             in (Returned,
                                 query_call Execute
                                   (prepareTableQuery model rs cs vs chart))))))"

subsection \<open>Reading a compile off the query\<close>

text \<open>
  The calls that a routine has added to the query of \<open>chart\<close>, given the chart \<open>chart'\<close>
  that it leaves: the plan of that compile.
\<close>

definition emitted :: "('f, 'o) Chart \<Rightarrow> ('f, 'o) Chart \<Rightarrow> ('f, 'o) QueryCall list" where
  "emitted chart chart' = drop (length (calls (query chart))) (calls (query chart'))"

fun is_summarize :: "('f, 'o) QueryCall \<Rightarrow> bool" where
  "is_summarize (AddSummarize ms ds) = True"
| "is_summarize c = False"

fun is_pivot_wider :: "('f, 'o) QueryCall \<Rightarrow> bool" where
  "is_pivot_wider (AddPivotWider rs cs vs) = True"
| "is_pivot_wider c = False"

fun is_mutate :: "('f, 'o) QueryCall \<Rightarrow> bool" where
  "is_mutate (AddMutate n t e) = True"
| "is_mutate c = False"

text \<open>The operations that only a builder adds, as opposed to \<^verbatim>\<open>resetQuery\<close> and \<^verbatim>\<open>execute\<close>.\<close>

fun chart_specific :: "('f, 'o) QueryCall \<Rightarrow> bool" where
  "chart_specific (AddSummarize ms ds) = True"
| "chart_specific (AddPivotWider rs cs vs) = True"
| "chart_specific (AddOrderBy c d) = True"
| "chart_specific (AddMutate n t e) = True"
| "chart_specific c = False"

text \<open>
  A plan that starts from the base reset: the data source and the upstream operations of
  the model query, then the filters when there are any, then the builder's operations
  \<open>specific\<close>, then \<^verbatim>\<open>execute\<close>.
\<close>

definition starts_from_reset ::
  "'o DataModel \<Rightarrow> ('f, 'o) Chart \<Rightarrow> ('f, 'o) QueryCall list \<Rightarrow> ('f, 'o) Chart \<Rightarrow> bool" where
  "starts_from_reset model chart specific chart' \<longleftrightarrow>
     specific \<noteq> [] \<and> list_all chart_specific specific \<and>
     calls (query chart') =
       calls (query chart) @
       [SetDataSource (dataSource (queries0 model)), SetOperations (operations (queries0 model))] @
       (if filters chart \<noteq> [] then [AddFilter (filters chart)] else []) @
       specific @ [Execute]"

text \<open>Whether a routine has thrown.\<close>

fun thrown :: "Outcome \<Rightarrow> bool" where
  "thrown (Thrown e) = True"
| "thrown Returned = False"

subsection \<open>An example model, chart and conversion\<close>

text \<open>
  A data model with the dimensions region and quarter and the measures revenue, signups
  and goal, over a source with one upstream operation; a chart with one active filter
  and a chart with none; and a string conversion that agrees with \<^verbatim>\<open>Number\<close> on the
  strings listed.
\<close>

definition region :: Dimension where
  "region = \<lparr>dimension_name = ''region'', label = ''Region''\<rparr>"

definition quarter :: Dimension where
  "quarter = \<lparr>dimension_name = ''quarter'', label = ''Quarter''\<rparr>"

definition revenue :: Measure where
  "revenue = \<lparr>column_name = ''revenue'', aggregation = ''sum''\<rparr>"

definition signups :: Measure where
  "signups = \<lparr>column_name = ''signups'', aggregation = ''sum''\<rparr>"

definition goal :: Measure where
  "goal = \<lparr>column_name = ''goal'', aggregation = ''max''\<rparr>"

definition demo_model :: "string DataModel" where
  "demo_model =
     \<lparr>getDimension = map_of [(''region'', region), (''quarter'', quarter)],
      getMeasure = map_of [(''revenue'', revenue), (''signups'', signups), (''goal'', goal)],
      queries0 = \<lparr>dataSource = ''sales'', operations = [''source orders'']\<rparr>\<rparr>"

definition demo_chart :: "(string, string) Chart" where
  "demo_chart = \<lparr>query = \<lparr>autoExecute = True, calls = []\<rparr>, filters = [''year = 2024'']\<rparr>"

definition plain_chart :: "(string, string) Chart" where
  "plain_chart = \<lparr>query = \<lparr>autoExecute = True, calls = []\<rparr>, filters = []\<rparr>"

definition demo_parse :: "string \<Rightarrow> JSNumber" where
  "demo_parse s =
     (if s = ''100'' then Finite 100 else if s = ''0'' then Finite 0
      else if s = ''-5'' then Finite (- 5) else NaN)"

text \<open>Metric configurations.\<close>

definition zero_target_metric :: MetricChartConfig where
  "zero_target_metric =
     \<lparr>metric_column = Some ''signups'', target_value = Some (JSNum (Finite 0)),
      target_column = Some ''goal'', date_column = None\<rparr>"

definition both_targets_metric :: MetricChartConfig where
  "both_targets_metric =
     \<lparr>metric_column = Some ''signups'', target_value = Some (JSStr ''100''),
      target_column = Some ''goal'', date_column = None\<rparr>"

definition literal_target_metric :: MetricChartConfig where
  "literal_target_metric =
     \<lparr>metric_column = Some ''signups'', target_value = Some (JSStr ''100''),
      target_column = None, date_column = None\<rparr>"

definition numeric_targets_metric :: MetricChartConfig where
  "numeric_targets_metric =
     \<lparr>metric_column = Some ''signups'', target_value = Some (JSNum (Finite 100)),
      target_column = Some ''goal'', date_column = Some ''quarter''\<rparr>"

definition negative_target_metric :: MetricChartConfig where
  "negative_target_metric =
     \<lparr>metric_column = Some ''signups'', target_value = Some (JSStr ''-5''),
      target_column = None, date_column = Some ''quarter''\<rparr>"

definition empty_metric :: MetricChartConfig where
  "empty_metric =
     \<lparr>metric_column = None, target_value = Some (JSNum (Finite 7)),
      target_column = None, date_column = Some ''quarter''\<rparr>"

text \<open>Axis configurations.\<close>

definition split_axis :: AxisChartConfig where
  "split_axis =
     \<lparr>x_axis = Some ''region'', split_by = Some ''quarter'', y_axis = Some [''revenue'']\<rparr>"

definition unsplit_axis :: AxisChartConfig where
  "unsplit_axis =
     \<lparr>x_axis = Some ''region'', split_by = Some ''week'', y_axis = Some [''profit'']\<rparr>"

definition same_axis :: AxisChartConfig where
  "same_axis =
     \<lparr>x_axis = Some ''region'', split_by = Some ''region'', y_axis = Some [''revenue'']\<rparr>"

definition multi_split_axis :: AxisChartConfig where
  "multi_split_axis =
     \<lparr>x_axis = Some ''region'', split_by = Some ''quarter'',
      y_axis = Some [''revenue'', ''profit'', ''goal'']\<rparr>"

definition multi_unsplit_axis :: AxisChartConfig where
  "multi_unsplit_axis =
     \<lparr>x_axis = Some ''region'', split_by = None, y_axis = Some [''signups'', ''revenue'']\<rparr>"

definition countless_axis :: AxisChartConfig where
  "countless_axis = \<lparr>x_axis = Some ''region'', split_by = Some ''quarter'', y_axis = Some []\<rparr>"

text \<open>Donut configurations.\<close>

definition revenue_donut :: DountChartConfig where
  "revenue_donut = \<lparr>label_column = Some ''region'', value_column = Some ''revenue''\<rparr>"

definition unknown_donut :: DountChartConfig where
  "unknown_donut = \<lparr>label_column = Some ''region'', value_column = Some ''profit''\<rparr>"

text \<open>Table configurations.\<close>

definition pivot_table :: TableChartConfig where
  "pivot_table =
     \<lparr>rows = Some [''region'', ''city''], columns = Some [''quarter''],
      values_list = Some [''revenue'']\<rparr>"

definition flat_table :: TableChartConfig where
  "flat_table =
     \<lparr>rows = Some [''region''], columns = Some [''week''],
      values_list = Some [''revenue'', ''goal'']\<rparr>"

definition unresolved_rows_table :: TableChartConfig where
  "unresolved_rows_table =
     \<lparr>rows = Some [''city'', ''week''], columns = Some [], values_list = Some [''revenue'']\<rparr>"

definition no_rows_table :: TableChartConfig where
  "no_rows_table =
     \<lparr>rows = Some [], columns = Some [''quarter''], values_list = Some [''revenue'']\<rparr>"

definition rows_only_table :: TableChartConfig where
  "rows_only_table = \<lparr>rows = Some [''city''], columns = None, values_list = None\<rparr>"

section \<open>Properties\<close>

subsection \<open>Auxiliary facts\<close>

lemma calls_query_call: "calls (query (query_call c chart)) = calls (query chart) @ [c]"
  by (simp add: query_call_def)

lemma filters_query_call: "filters (query_call c chart) = filters chart"
  by (simp add: query_call_def)

lemma calls_resetQuery:
  "calls (query (resetQuery model chart)) =
     calls (query chart) @
     [SetDataSource (dataSource (queries0 model)), SetOperations (operations (queries0 model))] @
     (if filters chart \<noteq> [] then [AddFilter (filters chart)] else [])"
  by (simp add: resetQuery_def Let_def calls_query_call filters_query_call)

lemma emitted_resetQuery:
  "emitted chart (resetQuery model chart) =
     [SetDataSource (dataSource (queries0 model)), SetOperations (operations (queries0 model))] @
     (if filters chart \<noteq> [] then [AddFilter (filters chart)] else [])"
  by (simp add: emitted_def calls_resetQuery)

lemma emitted_after_reset:
  assumes "calls (query chart') = calls (query (resetQuery model chart)) @ ops"
  shows "emitted chart chart' = emitted chart (resetQuery model chart) @ ops"
  using assms by (simp add: emitted_def calls_resetQuery)

lemma filterBoolean_empty:
  "filterBoolean (map f xs) = [] \<longleftrightarrow> (\<forall>x \<in> set xs. f x = None)"
proof (induction xs)
  case Nil
  show ?case by simp
next
  case (Cons x xs)
  then show ?case by (cases "f x") simp_all
qed

lemma filterBoolean_map_filter: "filterBoolean (map f xs) = List.map_filter f xs"
proof (induction xs)
  case Nil
  show ?case by simp
next
  case (Cons x xs)
  then show ?case by (cases "f x") simp_all
qed

lemma values_or_count_resolved:
  "values_or_count (map_option (\<lambda>ys. filterBoolean (map f ys)) y) =
     (if (case y of None \<Rightarrow> [] | Some ys \<Rightarrow> List.map_filter f ys) = [] then [count]
      else (case y of None \<Rightarrow> [] | Some ys \<Rightarrow> List.map_filter f ys))"
  by (cases y) (simp_all add: values_or_count_def filterBoolean_map_filter)

text \<open>What each builder adds after the reset.\<close>

lemma calls_prepareAxisChartQuery:
  "calls (query (prepareAxisChartQuery model row column vals chart)) =
     calls (query (resetQuery model chart)) @
     [case column of
        Some col \<Rightarrow> AddPivotWider [row] [col] (values_or_count vals)
      | None \<Rightarrow> AddSummarize (values_or_count vals) [row]]"
  by (simp add: prepareAxisChartQuery_def Let_def calls_query_call split: option.splits)

lemma calls_prepareMetricQuery_literal:
  assumes "positive_number target = Some n"
  shows "calls (query (prepareMetricQuery model metric target date chart)) =
           calls (query (resetQuery model chart)) @
           [AddSummarize [metric] [], AddMutate ''target'' ''Decimal'' (Literal n)]"
  using assms by (simp add: prepareMetricQuery_def Let_def calls_query_call)

lemma calls_prepareMetricQuery_no_literal:
  assumes "positive_number target = None"
  shows "calls (query (prepareMetricQuery model metric target date chart)) =
           calls (query (resetQuery model chart)) @
           [case object_target target of
              Some t \<Rightarrow> AddSummarize [metric, t] []
            | None \<Rightarrow> (case date of Some d \<Rightarrow> AddSummarize [metric] [d]
                                   | None \<Rightarrow> AddSummarize [metric] [])]"
  using assms
  by (simp add: prepareMetricQuery_def Let_def calls_query_call split: option.splits)

lemma calls_prepareDonutQuery:
  "calls (query (prepareDonutQuery model lbl val chart)) =
     calls (query (resetQuery model chart)) @
     [AddSummarize [val] [lbl], AddOrderBy (Column (column_name val)) ''desc'']"
  by (simp add: prepareDonutQuery_def Let_def calls_query_call)

lemma calls_prepareTableQuery:
  "calls (query (prepareTableQuery model rs cs vs chart)) =
     calls (query (resetQuery model chart)) @
     [if cs = [] then AddSummarize vs rs else AddPivotWider rs cs vs]"
  by (simp add: prepareTableQuery_def Let_def calls_query_call)

text \<open>A routine that throws has not touched the chart.\<close>

lemma fetchAxis_Thrown:
  "fetchAxisChartData model config chart = (Thrown e, chart') \<Longrightarrow> chart' = chart"
  by (auto simp: fetchAxisChartData_def Let_def split: if_splits option.splits)

lemma fetchMetric_Thrown:
  "fetchMetricChartData parse model config chart = (Thrown e, chart') \<Longrightarrow> chart' = chart"
  by (auto simp: fetchMetricChartData_def Let_def split: if_splits option.splits)

lemma fetchDonut_Thrown:
  "fetchDonutChartData model config chart = (Thrown e, chart') \<Longrightarrow> chart' = chart"
  by (auto simp: fetchDonutChartData_def split: if_splits option.splits)

lemma fetchTable_Thrown:
  "fetchTableChartData model config chart = (Thrown e, chart') \<Longrightarrow> chart' = chart"
  by (auto simp: fetchTableChartData_def Let_def split: if_splits option.splits)

text \<open>A routine that returns has resolved its required columns and run its builder.\<close>

lemma fetchAxis_Returned:
  assumes "fetchAxisChartData model config chart = (Returned, chart')"
  obtains row where "lookupDimension model (x_axis config) = Some row"
    and "chart' = query_call Execute
           (prepareAxisChartQuery model row (lookupDimension model (split_by config))
              (map_option (\<lambda>ys. filterBoolean (map (getMeasure model) ys)) (y_axis config)) chart)"
  using assms
  by (auto simp: fetchAxisChartData_def Let_def split: if_splits option.splits)

lemma fetchMetric_Returned:
  assumes "fetchMetricChartData parse model config chart = (Returned, chart')"
  obtains metric where "lookupMeasure model (metric_column config) = Some metric"
    and "chart' = query_call Execute
           (prepareMetricQuery model metric
              (if truthy_value (target_value config)
               then map_option (\<lambda>v. TargetNumber (Number parse v)) (target_value config)
               else map_option TargetMeasure (lookupMeasure model (target_column config)))
              (lookupDimension model (date_column config)) chart)"
  using assms
  by (auto simp: fetchMetricChartData_def Let_def split: if_splits option.splits)

lemma fetchDonut_Returned:
  assumes "fetchDonutChartData model config chart = (Returned, chart')"
  obtains lbl val where "lookupDimension model (label_column config) = Some lbl"
    and "lookupMeasure model (value_column config) = Some val"
    and "chart' = query_call Execute (prepareDonutQuery model lbl val chart)"
  using assms
  by (auto simp: fetchDonutChartData_def split: if_splits option.splits)

lemma fetchTable_Returned:
  assumes "fetchTableChartData model config chart = (Returned, chart')"
  obtains config_rows config_columns config_values where
    "rows config = Some config_rows" and "config_rows \<noteq> []"
    and "columns config = Some config_columns" and "values_list config = Some config_values"
    and "chart' = query_call Execute
           (prepareTableQuery model
              (filterBoolean (map (getDimension model) config_rows))
              (filterBoolean (map (getDimension model) config_columns))
              (filterBoolean (map (getMeasure model) config_values)) chart)"
  using assms
  by (auto simp: fetchTableChartData_def Let_def split: if_splits option.splits)

lemmas lookup_defs = lookupDimension_def lookupMeasure_def

lemmas demo_defs =
  demo_model_def demo_chart_def plain_chart_def demo_parse_def
  region_def quarter_def revenue_def signups_def goal_def

lemmas build_defs =
  resetQuery_def query_call_def values_or_count_def prepareAxisChartQuery_def
  prepareMetricQuery_def prepareDonutQuery_def prepareTableQuery_def emitted_def

subsection \<open>Metric: the checks on the target\<close>

text \<open>
  C1, as stated, fails. With target\_value set to the number 0 and target\_column set to a
  measure of the model, the first check of \<^verbatim>\<open>fetchMetricChartData\<close> does not fire (0 is
  falsy) and the compile returns, with the target column as second measure.
\<close>

theorem metric_zero_target_with_column_counterexample:
  "target_value zero_target_metric = Some (JSNum (Finite 0)) \<and>
   target_column zero_target_metric = Some ''goal'' \<and>
   fst (fetchMetricChartData demo_parse demo_model zero_target_metric demo_chart) = Returned \<and>
   emitted demo_chart
     (snd (fetchMetricChartData demo_parse demo_model zero_target_metric demo_chart)) =
     [SetDataSource ''sales'', SetOperations [''source orders''], AddFilter [''year = 2024''],
      AddSummarize [signups, goal] [], Execute]"
  by (simp add: zero_target_metric_def fetchMetricChartData_def lookup_defs demo_defs build_defs)

text \<open>
  C1, amended. A Metric configuration whose target\_value is truthy (a number other than 0
  and NaN, or a non-empty string) and whose target\_column is a non-empty string fails
  with the ConflictingFields error "Target value and target column cannot be used
  together", whatever the other fields, the model and the chart are, and the chart is
  left as it was.
\<close>

theorem metric_target_value_and_column_conflict:
  assumes "truthy_value (target_value config)" and "truthy_string (target_column config)"
  shows "fetchMetricChartData parse model config chart =
           (Thrown (ConflictingFields ''Target value and target column cannot be used together''),
            chart)"
  using assms by (simp add: fetchMetricChartData_def)

theorem metric_target_value_and_column_conflict_witness:
  "(truthy_value (target_value both_targets_metric) \<and>
    truthy_string (target_column both_targets_metric) \<and>
    fetchMetricChartData demo_parse demo_model both_targets_metric demo_chart =
      (Thrown (ConflictingFields ''Target value and target column cannot be used together''),
       demo_chart)) \<and>
   (target_value numeric_targets_metric = Some (JSNum (Finite 100)) \<and>
    truthy_value (target_value numeric_targets_metric) \<and>
    truthy_string (target_column numeric_targets_metric) \<and>
    fetchMetricChartData demo_parse demo_model numeric_targets_metric demo_chart =
      (Thrown (ConflictingFields ''Target value and target column cannot be used together''),
       demo_chart))"
proof -
  have v: "truthy_value (target_value both_targets_metric)"
    by (simp add: both_targets_metric_def)
  have c: "truthy_string (target_column both_targets_metric)"
    by (simp add: both_targets_metric_def)
  have n: "target_value numeric_targets_metric = Some (JSNum (Finite 100))"
    by (simp add: numeric_targets_metric_def)
  have v': "truthy_value (target_value numeric_targets_metric)"
    by (simp add: numeric_targets_metric_def)
  have c': "truthy_string (target_column numeric_targets_metric)"
    by (simp add: numeric_targets_metric_def)
  from metric_target_value_and_column_conflict [OF v c, of demo_parse demo_model demo_chart]
    metric_target_value_and_column_conflict [OF v' c', of demo_parse demo_model demo_chart]
    v c n v' c'
  show ?thesis by simp
qed

text \<open>
  C2. For a Metric configuration whose target\_value is a number that is not greater than
  0 (0, a negative number, and also NaN), or a string that \<^verbatim>\<open>Number\<close> converts to such a
  number, the literal-target branch is not taken. Either the compile throws and the chart
  is untouched, or it returns and the plan holds no \<^verbatim>\<open>addMutate\<close>: after the reset it is
  one summarize, of the metric and the resolved target column with no dimension, or of
  the metric by the resolved date, or of the metric alone, followed by \<^verbatim>\<open>execute\<close>.
\<close>

theorem metric_nonpositive_target_not_literal:
  fixes chart :: "('f, 'o) Chart"
  assumes "target_value config = Some v" and "\<not> gt_zero (Number parse v)"
  shows "case fetchMetricChartData parse model config chart of
           (Thrown e, chart') \<Rightarrow> chart' = chart
         | (Returned, chart') \<Rightarrow>
             \<not> list_ex is_mutate (emitted chart chart') \<and>
             (\<exists>metric. lookupMeasure model (metric_column config) = Some metric \<and>
                ((\<exists>t. lookupMeasure model (target_column config) = Some t \<and>
                      calls (query chart') =
                        calls (query (resetQuery model chart)) @
                        [AddSummarize [metric, t] [], Execute]) \<or>
                 (\<exists>d. lookupDimension model (date_column config) = Some d \<and>
                      calls (query chart') =
                        calls (query (resetQuery model chart)) @
                        [AddSummarize [metric] [d], Execute]) \<or>
                 calls (query chart') =
                   calls (query (resetQuery model chart)) @
                   [AddSummarize [metric] [], Execute]))"
proof (cases "fetchMetricChartData parse model config chart")
  case (Pair out chart')
  show ?thesis
  proof (cases out)
    case (Thrown e)
    with Pair have "chart' = chart"
      by (simp add: fetchMetric_Thrown)
    with Pair Thrown show ?thesis by simp
  next
    case Returned
    define target where
      "target = (if truthy_value (target_value config)
                 then map_option (\<lambda>v. TargetNumber (Number parse v)) (target_value config)
                 else map_option TargetMeasure (lookupMeasure model (target_column config)))"
    define date where "date = lookupDimension model (date_column config)"
    from Pair Returned obtain metric where
      metric: "lookupMeasure model (metric_column config) = Some metric" and
      chart': "chart' = query_call Execute (prepareMetricQuery model metric target date chart)"
      unfolding target_def date_def by (auto elim: fetchMetric_Returned)
    have no_literal: "positive_number target = None"
      using assms by (cases "lookupMeasure model (target_column config)") (simp_all add: target_def)
    have object: "object_target target =
        (if truthy_value (target_value config) then None
         else lookupMeasure model (target_column config))"
      using assms by (cases "lookupMeasure model (target_column config)") (simp_all add: target_def)
    define build :: "('f, 'o) QueryCall" where
      "build = (case object_target target of
                  Some t \<Rightarrow> AddSummarize [metric, t] []
                | None \<Rightarrow> (case date of Some d \<Rightarrow> AddSummarize [metric] [d]
                                       | None \<Rightarrow> AddSummarize [metric] []))"
    have plan: "calls (query chart') = calls (query (resetQuery model chart)) @ [build, Execute]"
      by (simp add: chart' calls_query_call calls_prepareMetricQuery_no_literal [OF no_literal]
          build_def)
    have build_cases:
      "(\<exists>t. lookupMeasure model (target_column config) = Some t \<and>
            build = AddSummarize [metric, t] []) \<or>
       (\<exists>d. lookupDimension model (date_column config) = Some d \<and>
            build = AddSummarize [metric] [d]) \<or>
       build = AddSummarize [metric] []"
      by (auto simp: build_def object date_def split: option.splits if_splits)
    then have "\<not> is_mutate build" by auto
    then have "\<not> list_ex is_mutate (emitted chart chart')"
      by (simp add: emitted_after_reset [OF plan] emitted_resetQuery)
    moreover from build_cases plan metric have
      "\<exists>metric. lookupMeasure model (metric_column config) = Some metric \<and>
                ((\<exists>t. lookupMeasure model (target_column config) = Some t \<and>
                      calls (query chart') =
                        calls (query (resetQuery model chart)) @
                        [AddSummarize [metric, t] [], Execute]) \<or>
                 (\<exists>d. lookupDimension model (date_column config) = Some d \<and>
                      calls (query chart') =
                        calls (query (resetQuery model chart)) @
                        [AddSummarize [metric] [d], Execute]) \<or>
                 calls (query chart') =
                   calls (query (resetQuery model chart)) @
                   [AddSummarize [metric] [], Execute])"
      by auto
    ultimately show ?thesis using Pair Returned by simp
  qed
qed

theorem metric_nonpositive_target_not_literal_witness:
  "(target_value zero_target_metric = Some (JSNum (Finite 0)) \<and>
    \<not> gt_zero (Number demo_parse (JSNum (Finite 0))) \<and>
    (case fetchMetricChartData demo_parse demo_model zero_target_metric demo_chart of
       (Thrown e, chart') \<Rightarrow> False
     | (Returned, chart') \<Rightarrow>
         \<not> list_ex is_mutate (emitted demo_chart chart') \<and>
         emitted demo_chart chart' =
           [SetDataSource ''sales'', SetOperations [''source orders''],
            AddFilter [''year = 2024''], AddSummarize [signups, goal] [], Execute])) \<and>
   (target_value negative_target_metric = Some (JSStr ''-5'') \<and>
    \<not> gt_zero (Number demo_parse (JSStr ''-5'')) \<and>
    (case fetchMetricChartData demo_parse demo_model negative_target_metric plain_chart of
       (Thrown e, chart') \<Rightarrow> False
     | (Returned, chart') \<Rightarrow>
         \<not> list_ex is_mutate (emitted plain_chart chart') \<and>
         emitted plain_chart chart' =
           [SetDataSource ''sales'', SetOperations [''source orders''],
            AddSummarize [signups] [quarter], Execute]))"
  using
    metric_nonpositive_target_not_literal
      [where chart = demo_chart and config = zero_target_metric and v = "JSNum (Finite 0)"
         and parse = demo_parse and model = demo_model]
    metric_nonpositive_target_not_literal
      [where chart = plain_chart and config = negative_target_metric and v = "JSStr ''-5''"
         and parse = demo_parse and model = demo_model]
  by (simp add: zero_target_metric_def negative_target_metric_def fetchMetricChartData_def
      lookup_defs demo_defs build_defs)

subsection \<open>Metric: both fields absent\<close>

text \<open>
  C9. A Metric configuration in which metric\_column and target\_column are both absent
  fails with the ConflictingFields error "Metric and target cannot be the same": the
  equality test fires on the two absent fields before the metric column is looked up, so
  the UnknownColumn error for the metric column is not the one raised.
\<close>

theorem metric_both_absent_conflict:
  assumes "metric_column config = None" and "target_column config = None"
  shows "fetchMetricChartData parse model config chart =
           (Thrown (ConflictingFields ''Metric and target cannot be the same''), chart)"
  using assms by (simp add: fetchMetricChartData_def)

theorem metric_both_absent_conflict_witness:
  "metric_column empty_metric = None \<and> target_column empty_metric = None \<and>
   fetchMetricChartData demo_parse demo_model empty_metric demo_chart =
     (Thrown (ConflictingFields ''Metric and target cannot be the same''), demo_chart)"
proof -
  have m: "metric_column empty_metric = None" by (simp add: empty_metric_def)
  have t: "target_column empty_metric = None" by (simp add: empty_metric_def)
  from metric_both_absent_conflict [OF m t] m t show ?thesis by simp
qed

subsection \<open>Axis charts\<close>

text \<open>
  C3. Let an Axis configuration compile successfully, with x\_axis resolved to the
  dimension \<open>row\<close>. Let \<open>ms\<close> be the measures that the entries of y\_axis resolve to, in the
  order of y\_axis and without the entries that do not resolve (no measure when y\_axis is
  absent), and let \<open>vs\<close> be \<open>ms\<close>, or the default row count alone when \<open>ms\<close> is empty. If
  split\_by resolves to a dimension \<open>col\<close>, the plan is the reset, then a pivot-wider with
  rows \<open>[row]\<close>, columns \<open>[col]\<close> and values \<open>vs\<close>, then \<^verbatim>\<open>execute\<close>, and it holds no
  summarize. If split\_by is absent or does not resolve, the plan is the reset, then a
  summarize with measures \<open>vs\<close> and dimensions \<open>[row]\<close>, then \<^verbatim>\<open>execute\<close>, and it holds no
  pivot-wider.
\<close>

theorem axis_split_by_selects_pivot_wider:
  fixes chart :: "('f, 'o) Chart"
  assumes "fetchAxisChartData model config chart = (Returned, chart')"
  shows "\<exists>row. lookupDimension model (x_axis config) = Some row \<and>
           (let ms = (case y_axis config of
                        None \<Rightarrow> []
                      | Some ys \<Rightarrow> List.map_filter (getMeasure model) ys);
                vs = (if ms = [] then [count] else ms)
            in case lookupDimension model (split_by config) of
                 Some col \<Rightarrow>
                   calls (query chart') =
                     calls (query (resetQuery model chart)) @
                     [AddPivotWider [row] [col] vs, Execute] \<and>
                   \<not> list_ex is_summarize (emitted chart chart')
               | None \<Rightarrow>
                   calls (query chart') =
                     calls (query (resetQuery model chart)) @
                     [AddSummarize vs [row], Execute] \<and>
                   \<not> list_ex is_pivot_wider (emitted chart chart'))"
proof -
  define vals where
    "vals = map_option (\<lambda>ys. filterBoolean (map (getMeasure model) ys)) (y_axis config)"
  define column where "column = lookupDimension model (split_by config)"
  define ms where
    "ms = (case y_axis config of None \<Rightarrow> [] | Some ys \<Rightarrow> List.map_filter (getMeasure model) ys)"
  define vs where "vs = (if ms = [] then [count] else ms)"
  have vs: "values_or_count vals = vs"
    unfolding vals_def vs_def ms_def by (rule values_or_count_resolved)
  from assms obtain row where
    row: "lookupDimension model (x_axis config) = Some row" and
    chart': "chart' = query_call Execute (prepareAxisChartQuery model row column vals chart)"
    unfolding vals_def column_def by (auto elim: fetchAxis_Returned)
  define build :: "('f, 'o) QueryCall" where
    "build = (case column of
                Some col \<Rightarrow> AddPivotWider [row] [col] vs
              | None \<Rightarrow> AddSummarize vs [row])"
  have plan: "calls (query chart') = calls (query (resetQuery model chart)) @ [build, Execute]"
    by (simp add: chart' calls_query_call calls_prepareAxisChartQuery build_def vs
        split: option.splits)
  have em: "emitted chart chart' = emitted chart (resetQuery model chart) @ [build, Execute]"
    by (rule emitted_after_reset [OF plan])
  have "case column of
          Some col \<Rightarrow>
            calls (query chart') =
              calls (query (resetQuery model chart)) @ [AddPivotWider [row] [col] vs, Execute] \<and>
            \<not> list_ex is_summarize (emitted chart chart')
        | None \<Rightarrow>
            calls (query chart') =
              calls (query (resetQuery model chart)) @ [AddSummarize vs [row], Execute] \<and>
            \<not> list_ex is_pivot_wider (emitted chart chart')"
  proof (cases column)
    case None
    then have "build = AddSummarize vs [row]"
      by (simp add: build_def)
    with plan em None show ?thesis
      by (simp add: emitted_resetQuery)
  next
    case (Some col)
    then have "build = AddPivotWider [row] [col] vs"
      by (simp add: build_def)
    with plan em Some show ?thesis
      by (simp add: emitted_resetQuery)
  qed
  with row show ?thesis
    unfolding Let_def column_def vs_def ms_def by blast
qed

theorem axis_split_by_selects_pivot_wider_witness:
  "(fetchAxisChartData demo_model multi_split_axis demo_chart =
      (Returned, snd (fetchAxisChartData demo_model multi_split_axis demo_chart)) \<and>
    y_axis multi_split_axis = Some [''revenue'', ''profit'', ''goal''] \<and>
    lookupDimension demo_model (split_by multi_split_axis) = Some quarter \<and>
    emitted demo_chart (snd (fetchAxisChartData demo_model multi_split_axis demo_chart)) =
      [SetDataSource ''sales'', SetOperations [''source orders''], AddFilter [''year = 2024''],
       AddPivotWider [region] [quarter] [revenue, goal], Execute]) \<and>
   (fetchAxisChartData demo_model multi_unsplit_axis plain_chart =
      (Returned, snd (fetchAxisChartData demo_model multi_unsplit_axis plain_chart)) \<and>
    y_axis multi_unsplit_axis = Some [''signups'', ''revenue''] \<and>
    lookupDimension demo_model (split_by multi_unsplit_axis) = None \<and>
    emitted plain_chart (snd (fetchAxisChartData demo_model multi_unsplit_axis plain_chart)) =
      [SetDataSource ''sales'', SetOperations [''source orders''],
       AddSummarize [signups, revenue] [region], Execute]) \<and>
   (fetchAxisChartData demo_model unsplit_axis plain_chart =
      (Returned, snd (fetchAxisChartData demo_model unsplit_axis plain_chart)) \<and>
    lookupDimension demo_model (split_by unsplit_axis) = None \<and>
    emitted plain_chart (snd (fetchAxisChartData demo_model unsplit_axis plain_chart)) =
      [SetDataSource ''sales'', SetOperations [''source orders''],
       AddSummarize [count] [region], Execute])"
proof -
  have a: "fetchAxisChartData demo_model multi_split_axis demo_chart =
      (Returned, snd (fetchAxisChartData demo_model multi_split_axis demo_chart))"
    by (simp add: multi_split_axis_def fetchAxisChartData_def lookup_defs demo_defs)
  have b: "fetchAxisChartData demo_model multi_unsplit_axis plain_chart =
      (Returned, snd (fetchAxisChartData demo_model multi_unsplit_axis plain_chart))"
    by (simp add: multi_unsplit_axis_def fetchAxisChartData_def lookup_defs demo_defs)
  have c: "fetchAxisChartData demo_model unsplit_axis plain_chart =
      (Returned, snd (fetchAxisChartData demo_model unsplit_axis plain_chart))"
    by (simp add: unsplit_axis_def fetchAxisChartData_def lookup_defs demo_defs)
  from axis_split_by_selects_pivot_wider [OF a] axis_split_by_selects_pivot_wider [OF b]
    axis_split_by_selects_pivot_wider [OF c] a b c
  show ?thesis
    by (simp add: multi_split_axis_def multi_unsplit_axis_def unsplit_axis_def
        fetchAxisChartData_def lookup_defs demo_defs build_defs)
qed

text \<open>
  C6. Let an Axis configuration compile successfully, with x\_axis resolved to the
  dimension \<open>row\<close>. If its y\_axis resolves to no measure (it is absent, it is empty, or
  none of its entries resolves), the measure list of the plan is exactly the one default
  row-count measure, in the summarize and in the pivot-wider alike.
\<close>

theorem axis_empty_y_axis_counts_rows:
  fixes chart :: "('f, 'o) Chart"
  assumes "fetchAxisChartData model config chart = (Returned, chart')"
    and "case y_axis config of
           None \<Rightarrow> True
         | Some ys \<Rightarrow> filterBoolean (map (getMeasure model) ys) = []"
  shows "\<exists>row. lookupDimension model (x_axis config) = Some row \<and>
           calls (query chart') =
             calls (query (resetQuery model chart)) @
             [case lookupDimension model (split_by config) of
                Some col \<Rightarrow> AddPivotWider [row] [col] [count]
              | None \<Rightarrow> AddSummarize [count] [row],
              Execute]"
proof -
  define vals where
    "vals = map_option (\<lambda>ys. filterBoolean (map (getMeasure model) ys)) (y_axis config)"
  from assms(1) obtain row where
    row: "lookupDimension model (x_axis config) = Some row" and
    chart': "chart' = query_call Execute
       (prepareAxisChartQuery model row (lookupDimension model (split_by config)) vals chart)"
    unfolding vals_def by (auto elim: fetchAxis_Returned)
  from assms(2) have "values_or_count vals = [count]"
    by (cases "y_axis config") (simp_all add: vals_def values_or_count_def)
  with row show ?thesis
    by (simp add: chart' calls_query_call calls_prepareAxisChartQuery split: option.splits)
qed

theorem axis_empty_y_axis_counts_rows_witness:
  "(fetchAxisChartData demo_model unsplit_axis demo_chart =
      (Returned, snd (fetchAxisChartData demo_model unsplit_axis demo_chart)) \<and>
    (case y_axis unsplit_axis of
       None \<Rightarrow> True
     | Some ys \<Rightarrow> filterBoolean (map (getMeasure demo_model) ys) = []) \<and>
    emitted demo_chart (snd (fetchAxisChartData demo_model unsplit_axis demo_chart)) =
      [SetDataSource ''sales'', SetOperations [''source orders''], AddFilter [''year = 2024''],
       AddSummarize [count] [region], Execute]) \<and>
   (fetchAxisChartData demo_model countless_axis demo_chart =
      (Returned, snd (fetchAxisChartData demo_model countless_axis demo_chart)) \<and>
    (case y_axis countless_axis of
       None \<Rightarrow> True
     | Some ys \<Rightarrow> filterBoolean (map (getMeasure demo_model) ys) = []) \<and>
    emitted demo_chart (snd (fetchAxisChartData demo_model countless_axis demo_chart)) =
      [SetDataSource ''sales'', SetOperations [''source orders''], AddFilter [''year = 2024''],
       AddPivotWider [region] [quarter] [count], Execute])"
proof -
  have a: "fetchAxisChartData demo_model unsplit_axis demo_chart =
      (Returned, snd (fetchAxisChartData demo_model unsplit_axis demo_chart))"
    by (simp add: unsplit_axis_def fetchAxisChartData_def lookup_defs demo_defs)
  have a': "case y_axis unsplit_axis of
       None \<Rightarrow> True
     | Some ys \<Rightarrow> filterBoolean (map (getMeasure demo_model) ys) = []"
    by (simp add: unsplit_axis_def demo_defs)
  have b: "fetchAxisChartData demo_model countless_axis demo_chart =
      (Returned, snd (fetchAxisChartData demo_model countless_axis demo_chart))"
    by (simp add: countless_axis_def fetchAxisChartData_def lookup_defs demo_defs)
  have b': "case y_axis countless_axis of
       None \<Rightarrow> True
     | Some ys \<Rightarrow> filterBoolean (map (getMeasure demo_model) ys) = []"
    by (simp add: countless_axis_def)
  from axis_empty_y_axis_counts_rows [OF a a'] axis_empty_y_axis_counts_rows [OF b b'] a a' b b'
  show ?thesis
    by (simp add: unsplit_axis_def countless_axis_def fetchAxisChartData_def lookup_defs
        demo_defs build_defs)
qed

subsection \<open>Donut charts\<close>

text \<open>
  C7. Let a Donut configuration compile successfully, with label\_column resolved to the
  dimension \<open>lbl\<close> and value\_column to the measure \<open>val\<close>. The plan is the reset, then a
  summarize with measures \<open>[val]\<close> and dimensions \<open>[lbl]\<close>, then, as its last operation, an
  order-by on the column name of \<open>val\<close> with direction "desc"; \<^verbatim>\<open>execute\<close> follows.
\<close>

theorem donut_orders_by_value_descending:
  assumes "fetchDonutChartData model config chart = (Returned, chart')"
  shows "\<exists>lbl val. lookupDimension model (label_column config) = Some lbl \<and>
           lookupMeasure model (value_column config) = Some val \<and>
           calls (query chart') =
             calls (query (resetQuery model chart)) @
             [AddSummarize [val] [lbl], AddOrderBy (Column (column_name val)) ''desc'', Execute]"
proof -
  from assms obtain lbl val where
    "lookupDimension model (label_column config) = Some lbl" and
    "lookupMeasure model (value_column config) = Some val" and
    "chart' = query_call Execute (prepareDonutQuery model lbl val chart)"
    by (rule fetchDonut_Returned)
  then show ?thesis
    by (simp add: calls_query_call calls_prepareDonutQuery)
qed

theorem donut_orders_by_value_descending_witness:
  "fetchDonutChartData demo_model revenue_donut demo_chart =
     (Returned, snd (fetchDonutChartData demo_model revenue_donut demo_chart)) \<and>
   emitted demo_chart (snd (fetchDonutChartData demo_model revenue_donut demo_chart)) =
     [SetDataSource ''sales'', SetOperations [''source orders''], AddFilter [''year = 2024''],
      AddSummarize [revenue] [region], AddOrderBy (Column ''revenue'') ''desc'', Execute]"
proof -
  have a: "fetchDonutChartData demo_model revenue_donut demo_chart =
      (Returned, snd (fetchDonutChartData demo_model revenue_donut demo_chart))"
    by (simp add: revenue_donut_def fetchDonutChartData_def lookup_defs demo_defs)
  from donut_orders_by_value_descending [OF a] a show ?thesis
    by (simp add: revenue_donut_def fetchDonutChartData_def lookup_defs demo_defs build_defs)
qed

subsection \<open>Tables\<close>

text \<open>
  C4. Let a Table configuration compile successfully. Then its three lists are present;
  let \<open>rs\<close>, \<open>cs\<close> and \<open>vs\<close> be its resolved rows, columns and values. The plan is the
  reset, then exactly one operation, then \<^verbatim>\<open>execute\<close>. The operation is a summarize with
  measures \<open>vs\<close> and dimensions \<open>rs\<close> when \<open>cs\<close> is empty, and a pivot-wider with rows \<open>rs\<close>,
  columns \<open>cs\<close> and values \<open>vs\<close> when \<open>cs\<close> is not empty; the plan holds no pivot-wider in
  the first case and no summarize in the second.
\<close>

theorem table_columns_select_build:
  fixes chart :: "('f, 'o) Chart"
  assumes "fetchTableChartData model config chart = (Returned, chart')"
  shows "\<exists>config_rows config_columns config_values.
           rows config = Some config_rows \<and> columns config = Some config_columns \<and>
           values_list config = Some config_values \<and>
           (let rs = filterBoolean (map (getDimension model) config_rows);
                cs = filterBoolean (map (getDimension model) config_columns);
                vs = filterBoolean (map (getMeasure model) config_values)
            in calls (query chart') =
                 calls (query (resetQuery model chart)) @
                 [if cs = [] then AddSummarize vs rs else AddPivotWider rs cs vs, Execute] \<and>
               \<not> list_ex (if cs = [] then is_pivot_wider else is_summarize)
                    (emitted chart chart'))"
proof -
  from assms obtain config_rows config_columns config_values where
    present: "rows config = Some config_rows" "columns config = Some config_columns"
      "values_list config = Some config_values" and
    chart': "chart' = query_call Execute
       (prepareTableQuery model
          (filterBoolean (map (getDimension model) config_rows))
          (filterBoolean (map (getDimension model) config_columns))
          (filterBoolean (map (getMeasure model) config_values)) chart)"
    by (rule fetchTable_Returned)
  define rs where "rs = filterBoolean (map (getDimension model) config_rows)"
  define cs where "cs = filterBoolean (map (getDimension model) config_columns)"
  define vs where "vs = filterBoolean (map (getMeasure model) config_values)"
  define build :: "('f, 'o) QueryCall" where
    "build = (if cs = [] then AddSummarize vs rs else AddPivotWider rs cs vs)"
  have plan: "calls (query chart') = calls (query (resetQuery model chart)) @ [build, Execute]"
    by (simp add: chart' calls_query_call calls_prepareTableQuery build_def rs_def cs_def vs_def)
  have "\<not> (if cs = [] then is_pivot_wider else is_summarize) build"
    by (simp add: build_def)
  then have "\<not> list_ex (if cs = [] then is_pivot_wider else is_summarize) (emitted chart chart')"
    by (simp add: emitted_after_reset [OF plan] emitted_resetQuery)
  with plan have
    "calls (query chart') =
       calls (query (resetQuery model chart)) @
       [if cs = [] then AddSummarize vs rs else AddPivotWider rs cs vs, Execute] \<and>
     \<not> list_ex (if cs = [] then is_pivot_wider else is_summarize) (emitted chart chart')"
    by (simp add: build_def)
  with present show ?thesis
    unfolding Let_def rs_def cs_def vs_def by blast
qed

theorem table_columns_select_build_witness:
  "(fetchTableChartData demo_model pivot_table demo_chart =
      (Returned, snd (fetchTableChartData demo_model pivot_table demo_chart)) \<and>
    columns pivot_table = Some [''quarter''] \<and>
    filterBoolean (map (getDimension demo_model) [''quarter'']) = [quarter] \<and>
    emitted demo_chart (snd (fetchTableChartData demo_model pivot_table demo_chart)) =
      [SetDataSource ''sales'', SetOperations [''source orders''], AddFilter [''year = 2024''],
       AddPivotWider [region] [quarter] [revenue], Execute]) \<and>
   (fetchTableChartData demo_model flat_table demo_chart =
      (Returned, snd (fetchTableChartData demo_model flat_table demo_chart)) \<and>
    columns flat_table = Some [''week''] \<and>
    filterBoolean (map (getDimension demo_model) [''week'']) = [] \<and>
    emitted demo_chart (snd (fetchTableChartData demo_model flat_table demo_chart)) =
      [SetDataSource ''sales'', SetOperations [''source orders''], AddFilter [''year = 2024''],
       AddSummarize [revenue, goal] [region], Execute])"
proof -
  have a: "fetchTableChartData demo_model pivot_table demo_chart =
      (Returned, snd (fetchTableChartData demo_model pivot_table demo_chart))"
    by (simp add: pivot_table_def fetchTableChartData_def)
  have b: "fetchTableChartData demo_model flat_table demo_chart =
      (Returned, snd (fetchTableChartData demo_model flat_table demo_chart))"
    by (simp add: flat_table_def fetchTableChartData_def)
  from table_columns_select_build [OF a] table_columns_select_build [OF b] a b
  show ?thesis
    by (simp add: pivot_table_def flat_table_def fetchTableChartData_def demo_defs build_defs)
qed

text \<open>
  C10, as stated, fails. A Table configuration with the one row "city", which does not
  resolve, and with no columns list and no values list passes the check on the rows and
  then fails: reading \<^verbatim>\<open>config.columns.map\<close> throws a TypeError, and nothing is built or
  executed.
\<close>

theorem table_absent_columns_counterexample:
  "rows rows_only_table = Some [''city''] \<and>
   getDimension demo_model ''city'' = None \<and>
   columns rows_only_table = None \<and>
   fetchTableChartData demo_model rows_only_table demo_chart = (Thrown TypeError, demo_chart)"
  by (simp add: rows_only_table_def fetchTableChartData_def demo_defs)

text \<open>
  C10, amended. A Table configuration whose rows list is not empty and whose columns and
  values lists are present compiles without an error even when none of its rows resolves
  to a dimension: the routine returns, and the plan is the reset, then a summarize with
  no dimension and the resolved values when no column resolves (a pivot-wider with no
  row, the resolved columns and the resolved values otherwise), then \<^verbatim>\<open>execute\<close>.
\<close>

theorem table_unresolved_rows_still_compile:
  assumes "rows config = Some config_rows" and "config_rows \<noteq> []"
    and "\<forall>r \<in> set config_rows. getDimension model r = None"
    and "columns config = Some config_columns"
    and "values_list config = Some config_values"
  shows "let cs = filterBoolean (map (getDimension model) config_columns);
             vs = filterBoolean (map (getMeasure model) config_values)
         in \<exists>chart'. fetchTableChartData model config chart = (Returned, chart') \<and>
              calls (query chart') =
                calls (query (resetQuery model chart)) @
                [if cs = [] then AddSummarize vs [] else AddPivotWider [] cs vs, Execute]"
proof -
  from assms(3) have "filterBoolean (map (getDimension model) config_rows) = []"
    by (simp add: filterBoolean_empty)
  with assms(1,2,4,5) show ?thesis
    by (simp add: fetchTableChartData_def Let_def calls_query_call calls_prepareTableQuery)
qed

theorem table_unresolved_rows_still_compile_witness:
  "rows unresolved_rows_table = Some [''city'', ''week''] \<and>
   getDimension demo_model ''city'' = None \<and> getDimension demo_model ''week'' = None \<and>
   columns unresolved_rows_table = Some [] \<and>
   values_list unresolved_rows_table = Some [''revenue''] \<and>
   fst (fetchTableChartData demo_model unresolved_rows_table demo_chart) = Returned \<and>
   emitted demo_chart (snd (fetchTableChartData demo_model unresolved_rows_table demo_chart)) =
     [SetDataSource ''sales'', SetOperations [''source orders''], AddFilter [''year = 2024''],
      AddSummarize [revenue] [], Execute]"
proof -
  have r: "rows unresolved_rows_table = Some [''city'', ''week'']"
    by (simp add: unresolved_rows_table_def)
  have n: "[''city'', ''week''] \<noteq> ([] :: string list)"
    by simp
  have u: "\<forall>r \<in> set [''city'', ''week'']. getDimension demo_model r = None"
    by (simp add: demo_defs)
  have c: "columns unresolved_rows_table = Some []"
    by (simp add: unresolved_rows_table_def)
  have v: "values_list unresolved_rows_table = Some [''revenue'']"
    by (simp add: unresolved_rows_table_def)
  from table_unresolved_rows_still_compile [OF r n u c v, of demo_chart] r u c v show ?thesis
    by (simp add: unresolved_rows_table_def fetchTableChartData_def demo_defs build_defs)
qed

subsection \<open>All chart types: failures and the base reset\<close>

lemma starts_from_resetI:
  assumes "calls (query chart') = calls (query (resetQuery model chart)) @ specific @ [Execute]"
    and "specific \<noteq> []" and "list_all chart_specific specific"
  shows "starts_from_reset model chart specific chart'"
  using assms by (simp add: starts_from_reset_def calls_resetQuery)

lemma fetchAxis_starts_from_reset:
  fixes chart :: "('f, 'o) Chart"
  assumes "fetchAxisChartData model config chart = (Returned, chart')"
  shows "\<exists>specific. starts_from_reset model chart specific chart'"
proof -
  from assms obtain row column vals where
    "chart' = query_call Execute (prepareAxisChartQuery model row column vals chart)"
    by (auto elim: fetchAxis_Returned)
  then have "starts_from_reset model chart
      [case column of
         Some col \<Rightarrow> AddPivotWider [row] [col] (values_or_count vals)
       | None \<Rightarrow> AddSummarize (values_or_count vals) [row]] chart'"
    by (intro starts_from_resetI)
      (simp_all add: calls_query_call calls_prepareAxisChartQuery split: option.splits)
  then show ?thesis ..
qed

lemma fetchMetric_starts_from_reset:
  fixes chart :: "('f, 'o) Chart"
  assumes "fetchMetricChartData parse model config chart = (Returned, chart')"
  shows "\<exists>specific. starts_from_reset model chart specific chart'"
proof -
  from assms obtain metric target date where
    chart': "chart' = query_call Execute (prepareMetricQuery model metric target date chart)"
    by (auto elim: fetchMetric_Returned)
  show ?thesis
  proof (cases "positive_number target")
    case None
    have "starts_from_reset model chart
        [case object_target target of
           Some t \<Rightarrow> AddSummarize [metric, t] []
         | None \<Rightarrow> (case date of Some d \<Rightarrow> AddSummarize [metric] [d]
                                | None \<Rightarrow> AddSummarize [metric] [])] chart'"
      by (intro starts_from_resetI)
        (simp_all add: chart' calls_query_call calls_prepareMetricQuery_no_literal [OF None]
          split: option.splits)
    then show ?thesis ..
  next
    case (Some n)
    have "starts_from_reset model chart
        [AddSummarize [metric] [], AddMutate ''target'' ''Decimal'' (Literal n)] chart'"
      by (intro starts_from_resetI)
        (simp_all add: chart' calls_query_call calls_prepareMetricQuery_literal [OF Some])
    then show ?thesis ..
  qed
qed

lemma fetchDonut_starts_from_reset:
  fixes chart :: "('f, 'o) Chart"
  assumes "fetchDonutChartData model config chart = (Returned, chart')"
  shows "\<exists>specific. starts_from_reset model chart specific chart'"
proof -
  from assms obtain lbl val where
    "chart' = query_call Execute (prepareDonutQuery model lbl val chart)"
    by (auto elim: fetchDonut_Returned)
  then have "starts_from_reset model chart
      [AddSummarize [val] [lbl], AddOrderBy (Column (column_name val)) ''desc''] chart'"
    by (intro starts_from_resetI) (simp_all add: calls_query_call calls_prepareDonutQuery)
  then show ?thesis ..
qed

lemma fetchTable_starts_from_reset:
  fixes chart :: "('f, 'o) Chart"
  assumes "fetchTableChartData model config chart = (Returned, chart')"
  shows "\<exists>specific. starts_from_reset model chart specific chart'"
proof -
  from assms obtain rs cs vs where
    "chart' = query_call Execute (prepareTableQuery model rs cs vs chart)"
    by (auto elim: fetchTable_Returned)
  then have "starts_from_reset model chart
      [if cs = [] then AddSummarize vs rs else AddPivotWider rs cs vs] chart'"
    by (intro starts_from_resetI) (simp_all add: calls_query_call calls_prepareTableQuery)
  then show ?thesis ..
qed

text \<open>
  C5. Whichever of the four routines runs, on whichever configuration: when it throws (a
  MissingField, a ConflictingFields or an UnknownColumn, and also the TypeError of a
  Table configuration with an absent list), the chart it leaves is the chart it was
  given. So the query has received no operation and no \<^verbatim>\<open>execute\<close>, and \<^verbatim>\<open>autoExecute\<close> is as
  it was.
\<close>

theorem failed_compile_leaves_chart:
  "(thrown (fst (fetchAxisChartData model axis chart)) \<longrightarrow>
      snd (fetchAxisChartData model axis chart) = chart \<and>
      emitted chart (snd (fetchAxisChartData model axis chart)) = []) \<and>
   (thrown (fst (fetchMetricChartData parse model metric chart)) \<longrightarrow>
      snd (fetchMetricChartData parse model metric chart) = chart \<and>
      emitted chart (snd (fetchMetricChartData parse model metric chart)) = []) \<and>
   (thrown (fst (fetchDonutChartData model donut chart)) \<longrightarrow>
      snd (fetchDonutChartData model donut chart) = chart \<and>
      emitted chart (snd (fetchDonutChartData model donut chart)) = []) \<and>
   (thrown (fst (fetchTableChartData model table chart)) \<longrightarrow>
      snd (fetchTableChartData model table chart) = chart \<and>
      emitted chart (snd (fetchTableChartData model table chart)) = [])"
proof -
  have unchanged: "snd r = chart \<and> emitted chart (snd r) = []"
    if "thrown (fst r)" and "\<And>e chart'. r = (Thrown e, chart') \<Longrightarrow> chart' = chart"
    for r :: "Outcome \<times> ('f, 'o) Chart" and chart
  proof -
    obtain out chart' where r: "r = (out, chart')" by (cases r)
    with that(1) obtain e where "out = Thrown e" by (cases out) simp_all
    with r that(2) have "chart' = chart" by simp
    with r show ?thesis by (simp add: emitted_def)
  qed
  have axis: "snd (fetchAxisChartData model axis chart) = chart \<and>
      emitted chart (snd (fetchAxisChartData model axis chart)) = []"
    if "thrown (fst (fetchAxisChartData model axis chart))"
    using that by (rule unchanged) (erule fetchAxis_Thrown)
  have metric: "snd (fetchMetricChartData parse model metric chart) = chart \<and>
      emitted chart (snd (fetchMetricChartData parse model metric chart)) = []"
    if "thrown (fst (fetchMetricChartData parse model metric chart))"
    using that by (rule unchanged) (erule fetchMetric_Thrown)
  have donut: "snd (fetchDonutChartData model donut chart) = chart \<and>
      emitted chart (snd (fetchDonutChartData model donut chart)) = []"
    if "thrown (fst (fetchDonutChartData model donut chart))"
    using that by (rule unchanged) (erule fetchDonut_Thrown)
  have table: "snd (fetchTableChartData model table chart) = chart \<and>
      emitted chart (snd (fetchTableChartData model table chart)) = []"
    if "thrown (fst (fetchTableChartData model table chart))"
    using that by (rule unchanged) (erule fetchTable_Thrown)
  from axis metric donut table show ?thesis by blast
qed

theorem failed_compile_leaves_chart_witness:
  "fst (fetchAxisChartData demo_model same_axis demo_chart) =
     Thrown (ConflictingFields ''X-axis and split-by cannot be the same'') \<and>
   snd (fetchAxisChartData demo_model same_axis demo_chart) = demo_chart \<and>
   fst (fetchMetricChartData demo_parse demo_model both_targets_metric demo_chart) =
     Thrown (ConflictingFields ''Target value and target column cannot be used together'') \<and>
   snd (fetchMetricChartData demo_parse demo_model both_targets_metric demo_chart) = demo_chart \<and>
   fst (fetchDonutChartData demo_model unknown_donut demo_chart) =
     Thrown (UnknownColumn ''Value column not found'') \<and>
   snd (fetchDonutChartData demo_model unknown_donut demo_chart) = demo_chart \<and>
   fst (fetchTableChartData demo_model no_rows_table demo_chart) =
     Thrown (MissingField ''Rows are required'') \<and>
   snd (fetchTableChartData demo_model no_rows_table demo_chart) = demo_chart"
proof -
  have a: "fst (fetchAxisChartData demo_model same_axis demo_chart) =
      Thrown (ConflictingFields ''X-axis and split-by cannot be the same'')"
    by (simp add: same_axis_def fetchAxisChartData_def)
  have m: "fst (fetchMetricChartData demo_parse demo_model both_targets_metric demo_chart) =
      Thrown (ConflictingFields ''Target value and target column cannot be used together'')"
    by (simp add: both_targets_metric_def fetchMetricChartData_def)
  have d: "fst (fetchDonutChartData demo_model unknown_donut demo_chart) =
      Thrown (UnknownColumn ''Value column not found'')"
    by (simp add: unknown_donut_def fetchDonutChartData_def lookup_defs demo_defs)
  have t: "fst (fetchTableChartData demo_model no_rows_table demo_chart) =
      Thrown (MissingField ''Rows are required'')"
    by (simp add: no_rows_table_def fetchTableChartData_def)
  from failed_compile_leaves_chart
    [where model = demo_model and chart = demo_chart and parse = demo_parse
       and axis = same_axis and metric = both_targets_metric and donut = unknown_donut
       and table = no_rows_table]
    a m d t
  show ?thesis by simp
qed

text \<open>
  C8. Whichever of the four routines runs: when it returns, the calls it has added to the
  query are the data source and the upstream operations of the model query, then an
  add-filter with the chart's filters when there is at least one filter and nothing when
  there is none, then one or more chart-specific operations (summarize, pivot-wider,
  order-by, mutate), then \<^verbatim>\<open>execute\<close>.
\<close>

theorem compile_starts_from_reset:
  fixes chart :: "('f, 'o) Chart"
  shows
  "(fst (fetchAxisChartData model axis chart) = Returned \<longrightarrow>
      (\<exists>specific.
         starts_from_reset model chart specific (snd (fetchAxisChartData model axis chart)))) \<and>
   (fst (fetchMetricChartData parse model metric chart) = Returned \<longrightarrow>
      (\<exists>specific.
         starts_from_reset model chart specific
           (snd (fetchMetricChartData parse model metric chart)))) \<and>
   (fst (fetchDonutChartData model donut chart) = Returned \<longrightarrow>
      (\<exists>specific.
         starts_from_reset model chart specific (snd (fetchDonutChartData model donut chart)))) \<and>
   (fst (fetchTableChartData model table chart) = Returned \<longrightarrow>
      (\<exists>specific.
         starts_from_reset model chart specific (snd (fetchTableChartData model table chart))))"
proof (intro conjI impI)
  assume "fst (fetchAxisChartData model axis chart) = Returned"
  then have "fetchAxisChartData model axis chart =
      (Returned, snd (fetchAxisChartData model axis chart))"
    by (simp add: prod_eq_iff)
  then show "\<exists>specific.
      starts_from_reset model chart specific (snd (fetchAxisChartData model axis chart))"
    by (rule fetchAxis_starts_from_reset)
next
  assume "fst (fetchMetricChartData parse model metric chart) = Returned"
  then have "fetchMetricChartData parse model metric chart =
      (Returned, snd (fetchMetricChartData parse model metric chart))"
    by (simp add: prod_eq_iff)
  then show "\<exists>specific.
      starts_from_reset model chart specific
        (snd (fetchMetricChartData parse model metric chart))"
    by (rule fetchMetric_starts_from_reset)
next
  assume "fst (fetchDonutChartData model donut chart) = Returned"
  then have "fetchDonutChartData model donut chart =
      (Returned, snd (fetchDonutChartData model donut chart))"
    by (simp add: prod_eq_iff)
  then show "\<exists>specific.
      starts_from_reset model chart specific (snd (fetchDonutChartData model donut chart))"
    by (rule fetchDonut_starts_from_reset)
next
  assume "fst (fetchTableChartData model table chart) = Returned"
  then have "fetchTableChartData model table chart =
      (Returned, snd (fetchTableChartData model table chart))"
    by (simp add: prod_eq_iff)
  then show "\<exists>specific.
      starts_from_reset model chart specific (snd (fetchTableChartData model table chart))"
    by (rule fetchTable_starts_from_reset)
qed

theorem compile_starts_from_reset_witness:
  "(fst (fetchAxisChartData demo_model split_axis demo_chart) = Returned \<and>
    starts_from_reset demo_model demo_chart [AddPivotWider [region] [quarter] [revenue]]
      (snd (fetchAxisChartData demo_model split_axis demo_chart))) \<and>
   (fst (fetchMetricChartData demo_parse demo_model literal_target_metric demo_chart) = Returned \<and>
    starts_from_reset demo_model demo_chart
      [AddSummarize [signups] [], AddMutate ''target'' ''Decimal'' (Literal (Finite 100))]
      (snd (fetchMetricChartData demo_parse demo_model literal_target_metric demo_chart))) \<and>
   (fst (fetchDonutChartData demo_model revenue_donut demo_chart) = Returned \<and>
    starts_from_reset demo_model demo_chart
      [AddSummarize [revenue] [region], AddOrderBy (Column ''revenue'') ''desc'']
      (snd (fetchDonutChartData demo_model revenue_donut demo_chart))) \<and>
   (fst (fetchTableChartData demo_model pivot_table demo_chart) = Returned \<and>
    starts_from_reset demo_model demo_chart [AddPivotWider [region] [quarter] [revenue]]
      (snd (fetchTableChartData demo_model pivot_table demo_chart))) \<and>
   emitted demo_chart (snd (fetchDonutChartData demo_model revenue_donut demo_chart)) =
     [SetDataSource ''sales'', SetOperations [''source orders''], AddFilter [''year = 2024''],
      AddSummarize [revenue] [region], AddOrderBy (Column ''revenue'') ''desc'', Execute] \<and>
   emitted plain_chart (snd (fetchDonutChartData demo_model revenue_donut plain_chart)) =
     [SetDataSource ''sales'', SetOperations [''source orders''],
      AddSummarize [revenue] [region], AddOrderBy (Column ''revenue'') ''desc'', Execute]"
  using
    compile_starts_from_reset
      [where model = demo_model and chart = demo_chart and parse = demo_parse
         and axis = split_axis and metric = literal_target_metric and donut = revenue_donut
         and table = pivot_table]
    compile_starts_from_reset
      [where model = demo_model and chart = plain_chart and parse = demo_parse
         and axis = split_axis and metric = literal_target_metric and donut = revenue_donut
         and table = pivot_table]
  by (simp add: split_axis_def literal_target_metric_def revenue_donut_def pivot_table_def
      fetchAxisChartData_def fetchMetricChartData_def fetchDonutChartData_def
      fetchTableChartData_def starts_from_reset_def lookup_defs demo_defs build_defs)

end
